theory Spec2Isabelle
  imports Complex_Main
begin

section \<open>Python values used by AeroData.py and AvData.py\<close>

text \<open>
  The data file is opened with encoding ISO-8859-1, so every character of a line is one
  of the 256 code points of \<^typ>\<open>char\<close>; a Python \<open>str\<close> is modelled as
  \<^typ>\<open>string\<close>.  Python floats are modelled as \<^typ>\<open>real\<close> (no rounding, no
  \<open>inf\<close>/\<open>nan\<close>).
\<close>

text \<open>The exceptions the modelled code raises.  A \<open>ValueError\<close> carries the place it
  comes from: the explicit \<open>raise ValueError("Airport ... not found in FAA data.")\<close> of
  AvData.py, or the builtins \<open>int(s)\<close> and \<open>float(s)\<close> on a string they reject.
  \<open>AttributeError\<close> is the access \<open>None.location\<close>; \<open>IndexError\<close> is a list or
  string index out of range.\<close>

datatype value_error = NotFound string | IntLiteral string | FloatLiteral string

datatype error = ValueError value_error | AttributeError | IndexError

text \<open>\<open>str.isspace\<close> on the code points below 256: what \<open>lstrip\<close> and \<open>rstrip\<close>
  remove.\<close>

definition py_isspace :: "char \<Rightarrow> bool" where
  "py_isspace c =
     (let n = (of_char c :: nat)
      in (9 \<le> n \<and> n \<le> 13) \<or> (28 \<le> n \<and> n \<le> 32) \<or> n = 133 \<or> n = 160)"

definition lstrip :: "string \<Rightarrow> string" where
  "lstrip s = dropWhile py_isspace s"

definition rstrip :: "string \<Rightarrow> string" where
  "rstrip s = rev (dropWhile py_isspace (rev s))"

text \<open>The slice \<open>s[a:b]\<close> for constants \<open>0 \<le> a \<le> b\<close>: it never raises, a short
  string gives a short (or empty) slice.\<close>

definition slice :: "nat \<Rightarrow> nat \<Rightarrow> 'a list \<Rightarrow> 'a list" where
  "slice a b s = take (b - a) (drop a s)"

text \<open>The slice \<open>xs[:k]\<close> for an integer \<open>k\<close>: a negative \<open>k\<close> counts from the
  end.\<close>

definition py_take :: "int \<Rightarrow> 'a list \<Rightarrow> 'a list" where
  "py_take k xs =
     (if 0 \<le> k then take (nat k) xs else take (nat (int (length xs) + k)) xs)"

text \<open>\<open>str.upper\<close> on the code points below 256: the letters a to z and the
  lower-case letters 224 to 254 (but not the division sign 247) move down by 32, every
  other character is kept.  Three code points are not modelled, because their upper
  case is not one character below 256: 181 (micro sign), 223 (sharp s) and 255.\<close>

definition upper_char :: "char \<Rightarrow> char" where
  "upper_char c =
     (let n = (of_char c :: nat)
      in if (97 \<le> n \<and> n \<le> 122) \<or> (224 \<le> n \<and> n \<le> 254 \<and> n \<noteq> 247)
         then char_of (n - 32) else c)"

definition upper :: "string \<Rightarrow> string" where
  "upper s = map upper_char s"

subsection \<open>The builtin \<open>int\<close> on a string\<close>

definition is_digit :: "char \<Rightarrow> bool" where
  "is_digit c = (let n = (of_char c :: nat) in 48 \<le> n \<and> n \<le> 57)"

definition digit_val :: "char \<Rightarrow> nat" where
  "digit_val c = of_char c - 48"

text \<open>The digits of a base-10 literal after its first digit: a single underscore is
  allowed between two digits, and nowhere else.\<close>

fun int_digits :: "string \<Rightarrow> nat \<Rightarrow> nat option" where
  "int_digits [] acc = Some acc"
| "int_digits [c] acc = (if is_digit c then Some (10 * acc + digit_val c) else None)"
| "int_digits (c # d # ds) acc =
     (if is_digit c then int_digits (d # ds) (10 * acc + digit_val c)
      else if c = CHR ''_'' \<and> is_digit d then int_digits ds (10 * acc + digit_val d)
      else None)"

definition int_unsigned :: "string \<Rightarrow> nat option" where
  "int_unsigned s =
     (case s of [] \<Rightarrow> None
      | c # cs \<Rightarrow> if is_digit c then int_digits cs (digit_val c) else None)"

text \<open>\<open>int(s)\<close>: surrounding white space is skipped, then an optional sign, then the
  digits.  \<open>None\<close> is the \<open>ValueError\<close> "invalid literal for int() with base 10".
  The white space \<open>int\<close> skips is narrower than \<open>str.isspace\<close>: the separators 28 to
  31 are not skipped.  (The limit of 4300 digits of Python 3.11 is not modelled; the
  parser passes at most five characters.)\<close>

definition int_isspace :: "char \<Rightarrow> bool" where
  "int_isspace c =
     (let n = (of_char c :: nat)
      in (9 \<le> n \<and> n \<le> 13) \<or> n = 32 \<or> n = 133 \<or> n = 160)"

definition int_strip :: "string \<Rightarrow> string" where
  "int_strip s = dropWhile int_isspace (rev (dropWhile int_isspace (rev s)))"

definition py_int :: "string \<Rightarrow> int option" where
  "py_int s =
     (case int_strip s of [] \<Rightarrow> None
      | c # cs \<Rightarrow>
          if c = CHR ''-'' then map_option (\<lambda>n. - int n) (int_unsigned cs)
          else if c = CHR ''+'' then map_option int (int_unsigned cs)
          else map_option int (int_unsigned (c # cs)))"

section \<open>Runway.py and Airport.py\<close>

text \<open>Every field the parser assigns is text cut from the line; \<open>length\<close> is named
  \<open>rwy_length\<close> here.\<close>

record runway =
  rwy_ident :: string
  rwy_length :: string
  width :: string
  surface :: string
  cond :: string
  TORA :: string
  TODA :: string
  ASDA :: string
  LDA :: string

text \<open>\<open>location\<close> is the list \<open>[latitude, longitude]\<close> that \<open>convertToDeg\<close> returns.
  \<open>boundary_artcc\<close> is never assigned and is left out.\<close>

record airport =
  icao_ident :: string
  facility_type :: string
  location :: "real \<times> real"
  region_code :: string
  state :: string
  county :: string
  city :: string
  facility_name :: string
  owner_type :: string
  facility_use :: string
  elevation :: string
  traffic_patt_alt :: string
  sectional :: string
  responsible_artcc :: string
  rwys :: "runway list"

section \<open>The nearest-airports query\<close>

text \<open>\<open>Geod(ellps='WGS84').inv(lon1, lat1, lon2, lat2)\<close> of pyproj is not code of this
  repository; it is a parameter of the model and returns
  \<open>(fwd_az, back_az, dist)\<close>, the distance in metres.\<close>

type_synonym geod = "real \<Rightarrow> real \<Rightarrow> real \<Rightarrow> real \<Rightarrow> real \<times> real \<times> real"

text \<open>The inner loop of both queries (AeroData.py lines 138 to 143, AvData.py lines 141
  to 145): \<open>l = max(l, int(r.length))\<close> for every runway whose surface is neither WATER
  nor TURF.  \<open>int\<close> may raise.\<close>

fun rwy_loop :: "runway list \<Rightarrow> int \<Rightarrow> error + int" where
  "rwy_loop [] l = Inr l"
| "rwy_loop (r # rs) l =
     (if surface r \<noteq> ''WATER'' \<and> surface r \<noteq> ''TURF''
      then (case py_int (rwy_length r) of
              None \<Rightarrow> Inl (ValueError (IntLiteral (rwy_length r)))
            | Some v \<Rightarrow> rwy_loop rs (max l v))
      else rwy_loop rs l)"

subsection \<open>AeroData.nearestApts\<close>

text \<open>The first loop: the first airport whose identifier equals \<open>aptID\<close>, or \<open>None\<close>.\<close>

fun find_apt :: "airport list \<Rightarrow> string \<Rightarrow> airport option" where
  "find_apt [] myAptIdent = None"
| "find_apt (a # as) myAptIdent =
     (if icao_ident a = myAptIdent then Some a else find_apt as myAptIdent)"

text \<open>The second loop, with the list \<open>nearestApts\<close> it appends to as accumulator.\<close>

fun apts_loop ::
  "geod \<Rightarrow> real \<times> real \<Rightarrow> airport list \<Rightarrow> (airport \<times> real \<times> real) list
     \<Rightarrow> error + (airport \<times> real \<times> real) list" where
  "apts_loop g myLoc [] nearest = Inr nearest"
| "apts_loop g myLoc (a # as) nearest =
     (case rwy_loop (rwys a) 0 of
        Inl e \<Rightarrow> Inl e
      | Inr l \<Rightarrow>
          (case g (snd myLoc) (fst myLoc) (snd (location a)) (fst (location a)) of
             (fwd_az, back_az, dist_m) \<Rightarrow>
               (let dist_nm = dist_m / 1852;
                    fwd_az' = (if fwd_az < 0 then fwd_az + 360 else fwd_az)
                in if l \<ge> 8000 \<and> dist_nm < 1000
                   then apts_loop g myLoc as (nearest @ [(a, fwd_az', dist_nm)])
                   else apts_loop g myLoc as nearest)))"

text \<open>\<open>nearestApts(aptID, num)\<close>; the parameter \<open>getCenters\<close> is never read.  When no
  airport matches, \<open>myApt\<close> is still \<open>None\<close> and \<open>myApt.location\<close> raises
  \<open>AttributeError\<close>.  \<open>sorted\<close> is stable, as \<^const>\<open>sort_key\<close> is.\<close>

definition nearestApts ::
  "geod \<Rightarrow> airport list \<Rightarrow> string \<Rightarrow> int \<Rightarrow> error + (airport \<times> real \<times> real) list" where
  "nearestApts g apts aptID num =
     (case find_apt apts aptID of
        None \<Rightarrow> Inl AttributeError
      | Some myApt \<Rightarrow>
          (case apts_loop g (location myApt) apts [] of
             Inl e \<Rightarrow> Inl e
           | Inr nearest \<Rightarrow>
               (let nearestApts_reordered = sort_key (\<lambda>x. snd (snd x)) nearest
                in Inr (py_take (min num (int (length nearestApts_reordered)))
                          nearestApts_reordered))))"

subsection \<open>AvData.get_data, nearest_airports and bearing_range\<close>

text \<open>The catalogue \<open>self.airports\<close> is a parameter: the download that fills it when it
  is \<open>None\<close> or empty is outside the model.\<close>

text \<open>The first loop of \<open>get_data\<close> and of \<open>nearest_airports\<close>: the first airport
  whose identifier, in upper case, equals the upper case of the query.\<close>

fun find_airport :: "airport list \<Rightarrow> string \<Rightarrow> airport option" where
  "find_airport [] ident = None"
| "find_airport (a # as) ident =
     (if upper (icao_ident a) = upper ident then Some a else find_airport as ident)"

definition get_data :: "airport list \<Rightarrow> string \<Rightarrow> error + airport" where
  "get_data airports ident =
     (case find_airport airports ident of
        None \<Rightarrow> Inl (ValueError (NotFound ident))
      | Some airport_data \<Rightarrow> Inr airport_data)"

text \<open>The second loop of \<open>nearest_airports\<close>.  Its loop variable is \<open>apt\<close>, but the
  body reads \<open>a.location\<close> and appends \<open>[a, dist]\<close>: \<open>a\<close> is the variable the first
  loop left bound to the selected airport.  So \<open>a\<close> is a parameter of the loop, and the
  airport \<open>apt\<close> under the cursor only decides whether an entry is appended.\<close>

fun airports_loop ::
  "geod \<Rightarrow> real \<times> real \<Rightarrow> airport \<Rightarrow> int \<Rightarrow> airport list \<Rightarrow> (airport \<times> real) list
     \<Rightarrow> error + (airport \<times> real) list" where
  "airports_loop g current_loc a min_rwy_length [] nearest = Inr nearest"
| "airports_loop g current_loc a min_rwy_length (apt # apts) nearest =
     (case rwy_loop (rwys apt) 0 of
        Inl e \<Rightarrow> Inl e
      | Inr shortest_runway \<Rightarrow>
          (case g (snd current_loc) (fst current_loc) (snd (location a)) (fst (location a)) of
             (fwd_az, back_az, dist_m) \<Rightarrow>
               if shortest_runway \<ge> min_rwy_length
               then airports_loop g current_loc a min_rwy_length apts (nearest @ [(a, dist_m)])
               else airports_loop g current_loc a min_rwy_length apts nearest))"

text \<open>The loop that collects the distinct \<open>responsible_artcc\<close> codes of the selected
  entries, in the order met.\<close>

fun centers_loop :: "(airport \<times> real) list \<Rightarrow> string list \<Rightarrow> string list" where
  "centers_loop [] centers = centers"
| "centers_loop (apt # rest) centers =
     (if responsible_artcc (fst apt) \<notin> set centers
      then centers_loop rest (centers @ [responsible_artcc (fst apt)])
      else centers_loop rest centers)"

text \<open>An element of the returned list: an \<open>Airport\<close> object, or a string
  (\<open>str(airport)\<close> is its \<open>icao_ident\<close>; a centre is its code).\<close>

datatype item = Obj airport | Str string

text \<open>The sorted and truncated list \<open>apts_sorted\<close> of \<open>nearest_airports\<close>.\<close>

definition apts_sorted ::
  "geod \<Rightarrow> airport list \<Rightarrow> string \<Rightarrow> int \<Rightarrow> int \<Rightarrow> error + (airport \<times> real) list" where
  "apts_sorted g airports ident num min_rwy_length =
     (case find_airport airports ident of
        None \<Rightarrow> Inl (ValueError (NotFound ident))
      | Some selected_aiport \<Rightarrow>
          (case airports_loop g (location selected_aiport) selected_aiport
                  min_rwy_length airports [] of
             Inl e \<Rightarrow> Inl e
           | Inr nearest \<Rightarrow>
               (let sorted1 = sort_key snd nearest
                in Inr (py_take (min num (int (length sorted1))) sorted1))))"

definition nearest_airports ::
  "geod \<Rightarrow> airport list \<Rightarrow> string \<Rightarrow> int \<Rightarrow> int \<Rightarrow> bool \<Rightarrow> bool \<Rightarrow> error + item list" where
  "nearest_airports g airports ident num min_rwy_length return_string get_centers =
     (case apts_sorted g airports ident num min_rwy_length of
        Inl e \<Rightarrow> Inl e
      | Inr selected \<Rightarrow>
          (let centers = (if get_centers then centers_loop selected [] else [])
           in if return_string
              then Inr (map (\<lambda>a. Str (icao_ident (fst a))) selected @ map Str centers)
              else Inr (map (\<lambda>a. Obj (fst a)) selected @ map Str centers)))"

definition bearing_range :: "geod \<Rightarrow> airport list \<Rightarrow> string \<Rightarrow> string \<Rightarrow> error + real \<times> real" where
  "bearing_range g airports icao_ident_origin icao_ident_dest =
     (case get_data airports icao_ident_origin of
        Inl e \<Rightarrow> Inl e
      | Inr origin \<Rightarrow>
          (case get_data airports icao_ident_dest of
             Inl e \<Rightarrow> Inl e
           | Inr destination \<Rightarrow>
               (case g (snd (location origin)) (fst (location origin))
                       (snd (location destination)) (fst (location destination)) of
                  (fwd_az, back_az, dist_m) \<Rightarrow>
                    Inr (if fwd_az < 0 then 360 + fwd_az else fwd_az, dist_m / 1852))))"

section \<open>The parser of APT.txt\<close>

text \<open>\<open>parseAirports\<close> and \<open>convertToDeg\<close> of AeroData.py and \<open>__parse_airports\<close> and
  \<open>__convert_to_deg\<close> of AvData.py are the same text; one model stands for both.\<close>

text \<open>The builtin \<open>float\<close> is a parameter \<open>py_float\<close> of the model (\<open>None\<close> when it
  raises); \<open>int\<close> is \<^const>\<open>py_int\<close>.\<close>

definition int_str :: "string \<Rightarrow> error + int" where
  "int_str s = (case py_int s of None \<Rightarrow> Inl (ValueError (IntLiteral s)) | Some v \<Rightarrow> Inr v)"

definition float_str :: "(string \<Rightarrow> real option) \<Rightarrow> string \<Rightarrow> error + real" where
  "float_str py_float s =
     (case py_float s of None \<Rightarrow> Inl (ValueError (FloatLiteral s)) | Some v \<Rightarrow> Inr v)"

text \<open>\<open>geopy.units.degrees(0, arcminutes, arcseconds)\<close>.\<close>

definition degrees :: "real \<Rightarrow> real \<Rightarrow> real" where
  "degrees arcminutes arcseconds = arcminutes / 60 + arcseconds / 3600"

text \<open>\<open>s[-1]\<close>.\<close>

definition last_char :: "string \<Rightarrow> error + char" where
  "last_char s = (if s = [] then Inl IndexError else Inr (last s))"

definition convertToDeg ::
  "(string \<Rightarrow> real option) \<Rightarrow> string \<Rightarrow> string \<Rightarrow> error + real \<times> real" where
  "convertToDeg py_float s1 s2 =
     (case int_str (slice 0 2 s1) of Inl e \<Rightarrow> Inl e | Inr d1 \<Rightarrow>
     (case int_str (slice 3 5 s1) of Inl e \<Rightarrow> Inl e | Inr m1 \<Rightarrow>
     (case float_str py_float (slice 6 13 s1) of Inl e \<Rightarrow> Inl e | Inr sec1 \<Rightarrow>
     (case last_char s1 of Inl e \<Rightarrow> Inl e | Inr h1 \<Rightarrow>
     (case int_str (slice 0 3 s2) of Inl e \<Rightarrow> Inl e | Inr d2 \<Rightarrow>
     (case int_str (slice 4 6 s2) of Inl e \<Rightarrow> Inl e | Inr m2 \<Rightarrow>
     (case float_str py_float (slice 7 14 s2) of Inl e \<Rightarrow> Inl e | Inr sec2 \<Rightarrow>
     (case last_char s2 of Inl e \<Rightarrow> Inl e | Inr h2 \<Rightarrow>
        (let a = of_int d1 + degrees (of_int m1) sec1;
             a' = (if h1 = CHR ''S'' then - a else a);
             b = of_int d2 + degrees (of_int m2) sec2;
             b' = (if h2 = CHR ''W'' then - b else b)
         in Inr (a', b'))))))))))"

text \<open>\<open>s.rsplit(sep, 1)\<close> for a string that contains the character \<open>sep\<close>: the text
  before the last \<open>sep\<close> and the text after it.\<close>

definition rsplit1 :: "char \<Rightarrow> string \<Rightarrow> string \<times> string" where
  "rsplit1 sep s =
     (let after = rev (takeWhile (\<lambda>c. c \<noteq> sep) (rev s))
      in (take (length s - length after - 1) s, after))"

text \<open>The body of \<open>if lines[i+n][0:3]=='RWY'\<close>, on the line \<open>lines[i+n]\<close>.\<close>

definition decode_rwy :: "string \<Rightarrow> runway" where
  "decode_rwy line =
     (let surf_cond = rstrip (slice 32 44 line);
          sc = (if CHR ''-'' \<in> set surf_cond then rsplit1 (CHR ''-'') surf_cond
                else (surf_cond, []))
      in \<lparr> rwy_ident = rstrip (slice 16 23 line),
           rwy_length = lstrip (slice 23 28 line),
           width = lstrip (slice 28 32 line),
           surface = fst sc,
           cond = snd sc,
           TORA = lstrip (slice 698 703 line),
           TODA = lstrip (slice 703 708 line),
           ASDA = lstrip (slice 708 713 line),
           LDA = lstrip (slice 713 718 line) \<rparr>)"

text \<open>The \<open>while\<close> loop over \<open>n\<close>, with the list \<open>apt.rwys\<close> as accumulator.  Reading
  \<open>lines[i+n]\<close> past the end of the list raises \<open>IndexError\<close>.\<close>

function rwy_scan :: "string list \<Rightarrow> nat \<Rightarrow> nat \<Rightarrow> runway list \<Rightarrow> error + runway list" where
  "rwy_scan lines i n rs =
     (if length lines \<le> i + n then Inl IndexError
      else if slice 0 3 (lines ! (i + n)) \<noteq> ''RMK''
              \<and> slice 0 3 (lines ! (i + n)) \<noteq> ''APT''
              \<and> slice 0 3 (lines ! (i + n)) \<noteq> ''ARR''
      then rwy_scan lines i (n + 1)
             (if slice 0 3 (lines ! (i + n)) = ''RWY''
              then rs @ [decode_rwy (lines ! (i + n))] else rs)
      else Inr rs)"
  by pat_completeness auto
termination
  by (relation "measure (\<lambda>(lines, i, n, rs). length lines - (i + n))") auto

declare rwy_scan.simps [simp del]

text \<open>The identifier rule, used for \<open>icao_ident\<close> and \<open>responsible_artcc\<close>.\<close>

definition k_prefix :: "string \<Rightarrow> string" where
  "k_prefix ident = (if length ident = 3 then CHR ''K'' # ident else ident)"

text \<open>The fields read from the APT line itself (lines 66 to 84 of AeroData.py); the
  only step that may raise is \<open>convertToDeg\<close>.\<close>

definition apt_fields :: "(string \<Rightarrow> real option) \<Rightarrow> string \<Rightarrow> error + airport" where
  "apt_fields py_float line =
     (case convertToDeg py_float (slice 523 537 line) (slice 550 565 line) of
        Inl e \<Rightarrow> Inl e
      | Inr loc \<Rightarrow>
          Inr \<lparr> icao_ident = k_prefix (rstrip (slice 27 31 line)),
                facility_type = rstrip (slice 14 27 line),
                location = loc,
                region_code = slice 41 44 line,
                state = rstrip (slice 50 70 line),
                county = rstrip (slice 70 91 line),
                city = rstrip (slice 93 133 line),
                facility_name = rstrip (slice 133 183 line),
                owner_type = slice 183 185 line,
                facility_use = slice 185 187 line,
                elevation = lstrip (slice 578 585 line),
                traffic_patt_alt = lstrip (slice 593 597 line),
                sectional = rstrip (slice 597 627 line),
                responsible_artcc = k_prefix (rstrip (slice 674 678 line)),
                rwys = [] \<rparr>)"

text \<open>The body of \<open>if lines[i][0:3]=='APT'\<close>: the airport of line \<open>i\<close> with the runways
  of the lines that follow it.\<close>

definition parse_apt :: "(string \<Rightarrow> real option) \<Rightarrow> string list \<Rightarrow> nat \<Rightarrow> error + airport" where
  "parse_apt py_float lines i =
     (case apt_fields py_float (lines ! i) of
        Inl e \<Rightarrow> Inl e
      | Inr apt \<Rightarrow>
          (case rwy_scan lines i 1 [] of
             Inl e \<Rightarrow> Inl e
           | Inr rs \<Rightarrow> Inr (apt\<lparr>rwys := rs\<rparr>)))"

text \<open>\<open>for i in range(len(lines))\<close>, with the list \<open>airports\<close> as accumulator.\<close>

fun parse_loop ::
  "(string \<Rightarrow> real option) \<Rightarrow> string list \<Rightarrow> nat list \<Rightarrow> airport list \<Rightarrow> error + airport list" where
  "parse_loop py_float lines [] airports = Inr airports"
| "parse_loop py_float lines (i # is) airports =
     (if slice 0 3 (lines ! i) = ''APT''
      then (case parse_apt py_float lines i of
              Inl e \<Rightarrow> Inl e
            | Inr apt \<Rightarrow> parse_loop py_float lines is (airports @ [apt]))
      else parse_loop py_float lines is airports)"

definition parseAirports :: "(string \<Rightarrow> real option) \<Rightarrow> string list \<Rightarrow> error + airport list" where
  "parseAirports py_float lines = parse_loop py_float lines [0..<length lines] []"

section \<open>Notions of the specification\<close>

text \<open>A runway that counts for the usable length: its surface is neither WATER nor
  TURF.\<close>

definition usable_rwy :: "runway \<Rightarrow> bool" where
  "usable_rwy r = (surface r \<noteq> ''WATER'' \<and> surface r \<noteq> ''TURF'')"

text \<open>Every runway that counts has a length that \<open>int\<close> accepts.\<close>

definition lengths_parse :: "runway list \<Rightarrow> bool" where
  "lengths_parse rs = list_all (\<lambda>r. usable_rwy r \<longrightarrow> py_int (rwy_length r) \<noteq> None) rs"

text \<open>The usable runway length of an airport, in the words of the specification: the
  largest length among the runways that count, and 0 when there is none.  (The maximum
  is taken together with 0, the start value of the code's \<open>l\<close>.)\<close>

definition usable_lengths :: "runway list \<Rightarrow> int list" where
  "usable_lengths rs = map (\<lambda>r. the (py_int (rwy_length r))) (filter usable_rwy rs)"

definition usable_runway_length :: "airport \<Rightarrow> int" where
  "usable_runway_length a = Max (insert 0 (set (usable_lengths (rwys a))))"

text \<open>Range in nautical miles and bearing in degrees from \<open>myLoc\<close> to an airport.\<close>

definition range_nm :: "geod \<Rightarrow> real \<times> real \<Rightarrow> airport \<Rightarrow> real" where
  "range_nm g myLoc a =
     snd (snd (g (snd myLoc) (fst myLoc) (snd (location a)) (fst (location a)))) / 1852"

definition bearing_deg :: "geod \<Rightarrow> real \<times> real \<Rightarrow> airport \<Rightarrow> real" where
  "bearing_deg g myLoc a =
     (let fwd_az = fst (g (snd myLoc) (fst myLoc) (snd (location a)) (fst (location a)))
      in if fwd_az < 0 then fwd_az + 360 else fwd_az)"

text \<open>The airports that pass the filter of \<open>nearestApts\<close>, in catalogue order.\<close>

definition qualifying :: "geod \<Rightarrow> real \<times> real \<Rightarrow> airport list \<Rightarrow> airport list" where
  "qualifying g myLoc apts =
     filter (\<lambda>a. usable_runway_length a \<ge> 8000 \<and> range_nm g myLoc a < 1000) apts"

text \<open>Every airport of the catalogue has only lengths that \<open>int\<close> accepts, and the
  airports that pass the filter of \<open>nearest_airports\<close> (no range cap).\<close>

definition all_lengths_parse :: "airport list \<Rightarrow> bool" where
  "all_lengths_parse apts = list_all (\<lambda>a. lengths_parse (rwys a)) apts"

definition long_enough :: "int \<Rightarrow> airport list \<Rightarrow> airport list" where
  "long_enough min_rwy_length apts =
     filter (\<lambda>apt. usable_runway_length apt \<ge> min_rwy_length) apts"

text \<open>The record types of the data file that the parser looks at: the first three
  characters of a line.  A boundary line ends the block of an airport.\<close>

definition boundary :: "string \<Rightarrow> bool" where
  "boundary line =
     (slice 0 3 line = ''RMK'' \<or> slice 0 3 line = ''APT'' \<or> slice 0 3 line = ''ARR'')"

definition is_rwy :: "string \<Rightarrow> bool" where
  "is_rwy line = (slice 0 3 line = ''RWY'')"

definition is_apt :: "string \<Rightarrow> bool" where
  "is_apt line = (slice 0 3 line = ''APT'')"

definition block_rwys :: "string list \<Rightarrow> runway list" where
  "block_rwys rest = map decode_rwy (filter is_rwy (takeWhile (\<lambda>l. \<not> boundary l) rest))"

section \<open>A small catalogue to run the model on\<close>

text \<open>\<open>test_geod\<close> stands in for pyproj on the examples: the azimuth is the difference
  of the longitudes, the distance 60 nautical miles per degree of latitude.  The
  theorems below hold for every function \<open>g\<close>.\<close>

definition test_geod :: geod where
  "test_geod lon1 lat1 lon2 lat2 = (lon2 - lon1, lon1 - lon2, 1852 * 60 * \<bar>lat2 - lat1\<bar>)"

definition test_rwy :: "string \<Rightarrow> string \<Rightarrow> string \<Rightarrow> runway" where
  "test_rwy ident len surf =
     \<lparr> rwy_ident = ident, rwy_length = len, width = ''150'', surface = surf, cond = ''G'',
       TORA = [], TODA = [], ASDA = [], LDA = [] \<rparr>"

definition test_apt :: "string \<Rightarrow> real \<times> real \<Rightarrow> string \<Rightarrow> runway list \<Rightarrow> airport" where
  "test_apt ident loc artcc rs =
     \<lparr> icao_ident = ident, facility_type = ''AIRPORT'', location = loc, region_code = ''ASO'',
       state = ''FLORIDA'', county = [], city = [], facility_name = [], owner_type = ''MA'',
       facility_use = ''PR'', elevation = ''87'', traffic_patt_alt = [], sectional = [],
       responsible_artcc = artcc, rwys = rs \<rparr>"

definition kvps :: airport where
  "kvps = test_apt ''KVPS'' (30, -86) ''KZJX''
            [test_rwy ''01/19'' ''10012'' ''ASPH'', test_rwy ''12/30'' ''12005'' ''CONC'']"

definition kpam :: airport where
  "kpam = test_apt ''KPAM'' (31, -85) ''KZJX'' [test_rwy ''14/32'' ''10008'' ''CONC'']"

definition knpa :: airport where
  "knpa = test_apt ''KNPA'' (32, -88) ''KZJX'' [test_rwy ''07/25'' ''8002'' ''ASPH'']"

definition seaplane_base :: airport where
  "seaplane_base = test_apt ''K5FL'' (29, -85) ''KZJX'' [test_rwy ''09W/27W'' ''9000'' ''WATER'']"

definition blank_length :: airport where
  "blank_length = test_apt ''KXYZ'' (29, -87) ''KZJX'' [test_rwy ''09/27'' [] ''ASPH'']"

definition kfar :: airport where
  "kfar = test_apt ''KFAR'' (140 / 3, -86) ''KZMP'' [test_rwy ''18/36'' ''10000'' ''CONC'']"

text \<open>Lines of the data file for the examples: a field is padded with blanks to its
  width.  \<open>float_decimal\<close> gives the value of \<open>float\<close> on a plain literal
  \<open>digits.digits\<close>, read exactly; it stands in for \<open>float\<close> on the examples only, and
  the theorems below hold for every \<open>py_float\<close>.\<close>

definition digits_nat :: "string \<Rightarrow> nat" where
  "digits_nat ds = foldl (\<lambda>acc c. 10 * acc + digit_val c) 0 ds"

definition float_decimal :: "string \<Rightarrow> real option" where
  "float_decimal s =
     (let ip = takeWhile (\<lambda>c. c \<noteq> CHR ''.'') s; fp = drop (Suc (length ip)) s
      in if ip \<noteq> [] \<and> fp \<noteq> [] \<and> list_all is_digit ip \<and> list_all is_digit fp
         then Some (real (digits_nat ip) + real (digits_nat fp) / 10 ^ length fp)
         else None)"

definition pad :: "nat \<Rightarrow> string \<Rightarrow> string" where
  "pad n s = s @ replicate (n - length s) (CHR '' '')"

definition apt_line :: "string \<Rightarrow> string \<Rightarrow> string \<Rightarrow> string" where
  "apt_line ident lat lon =
     pad 27 ''APT'' @ pad 496 ident @ pad 27 lat @ pad 15 lon"

definition rwy_line :: "string \<Rightarrow> string \<Rightarrow> string \<Rightarrow> string" where
  "rwy_line ident len surf_cond =
     pad 16 ''RWY'' @ pad 7 ident @ len @ '' 150'' @ pad 12 surf_cond"

definition vps_lines :: "string list" where
  "vps_lines =
     [apt_line ''VPS'' ''30-28-59.5810N'' ''086-31-31.4250W'',
      ''ATT'',
      rwy_line ''01/19'' ''10012'' ''ASPH-CONC-G'',
      rwy_line ''12/30'' ''12005'' ''CONC-G'',
      rwy_line ''H1'' ''   60'' ''TURF'',
      ''RMK'',
      rwy_line ''XX'' '' 1000'' ''ASPH'',
      apt_line ''PHNL'' ''21-19-04.2000N'' ''157-55-12.9000W'',
      rwy_line ''08W/26W'' '' 5000'' ''WATER'',
      ''ARR'']"

definition parsed_apt :: "string \<Rightarrow> real \<times> real \<Rightarrow> runway list \<Rightarrow> airport" where
  "parsed_apt ident loc rs =
     \<lparr> icao_ident = ident, facility_type = [], location = loc, region_code = ''   '',
       state = [], county = [], city = [], facility_name = [], owner_type = ''  '',
       facility_use = ''  '', elevation = [], traffic_patt_alt = [], sectional = [],
       responsible_artcc = [], rwys = rs \<rparr>"

definition parsed_rwy :: "string \<Rightarrow> string \<Rightarrow> string \<Rightarrow> string \<Rightarrow> runway" where
  "parsed_rwy ident len surf cnd =
     \<lparr> rwy_ident = ident, rwy_length = len, width = ''150'', surface = surf, cond = cnd,
       TORA = [], TODA = [], ASDA = [], LDA = [] \<rparr>"

definition unterminated_lines :: "string list" where
  "unterminated_lines =
     [apt_line ''VPS'' ''30-28-59.5810N'' ''086-31-31.4250W'',
      rwy_line ''12/30'' ''12005'' ''CONC-G'']"

definition cut_lines :: "string list" where
  "cut_lines =
     [''RMK'',
      apt_line ''PHNL'' ''21-19-04.2000N'' ''157-55-12.9000W'',
      ''ATT'']"

section \<open>Properties of the query\<close>

subsection \<open>The loops of the query\<close>

lemma rwy_loop_parse:
  "lengths_parse rs \<Longrightarrow> rwy_loop rs l = Inr (Max (insert l (set (usable_lengths rs))))"
proof (induction rs arbitrary: l)
  case Nil
  then show ?case by (simp add: usable_lengths_def)
next
  case (Cons r rs)
  then have P: "lengths_parse rs" by (simp add: lengths_parse_def)
  show ?case
  proof (cases "usable_rwy r")
    case True
    with Cons.prems obtain v where v: "py_int (rwy_length r) = Some v"
      by (auto simp: lengths_parse_def)
    have "rwy_loop (r # rs) l = rwy_loop rs (max l v)"
      using True v by (simp add: usable_rwy_def)
    also have "\<dots> = Inr (Max (insert (max l v) (set (usable_lengths rs))))"
      by (rule Cons.IH [OF P])
    also have "Max (insert (max l v) (set (usable_lengths rs)))
                 = Max (insert l (set (usable_lengths (r # rs))))"
    proof -
      let ?S = "set (usable_lengths rs)"
      have S: "set (usable_lengths (r # rs)) = insert v ?S"
        using True v by (simp add: usable_lengths_def)
      have "Max (insert l (insert v ?S)) = max l (Max (insert v ?S))"
        by (rule Max_insert) auto
      also have "\<dots> = Max (insert (max l v) ?S)"
        by (cases "?S = {}") (auto simp: max.assoc)
      finally show ?thesis
        unfolding S by simp
    qed
    finally show ?thesis .
  next
    case False
    then have "rwy_loop (r # rs) l = rwy_loop rs l"
      by (auto simp: usable_rwy_def)
    moreover have "usable_lengths (r # rs) = usable_lengths rs"
      using False by (simp add: usable_lengths_def)
    ultimately show ?thesis
      using Cons.IH [OF P, of l] by simp
  qed
qed

lemma rwy_loop_fail:
  "\<not> lengths_parse rs \<Longrightarrow> \<exists>s. rwy_loop rs l = Inl (ValueError (IntLiteral s)) \<and> py_int s = None"
proof (induction rs arbitrary: l)
  case Nil
  then show ?case by (simp add: lengths_parse_def)
next
  case (Cons r rs)
  show ?case
  proof (cases "usable_rwy r \<and> py_int (rwy_length r) = None")
    case True
    then show ?thesis by (auto simp: usable_rwy_def)
  next
    case False
    with Cons.prems have "\<not> lengths_parse rs" by (auto simp: lengths_parse_def)
    from Cons.IH [OF this] show ?thesis
      using False by (auto simp: usable_rwy_def)
  qed
qed

lemma apts_loop_parse:
  "list_all (\<lambda>a. lengths_parse (rwys a)) as \<Longrightarrow>
   apts_loop g myLoc as nearest =
     Inr (nearest @ map (\<lambda>a. (a, bearing_deg g myLoc a, range_nm g myLoc a))
                      (qualifying g myLoc as))"
proof (induction as arbitrary: nearest)
  case Nil
  then show ?case by (simp add: qualifying_def)
next
  case (Cons a as)
  then have P: "lengths_parse (rwys a)" and Q: "list_all (\<lambda>a. lengths_parse (rwys a)) as"
    by simp_all
  have L: "rwy_loop (rwys a) 0 = Inr (usable_runway_length a)"
    using rwy_loop_parse [OF P] by (simp add: usable_runway_length_def)
  show ?case
    using Cons.IH [OF Q] L
    by (simp add: qualifying_def range_nm_def bearing_deg_def Let_def split: prod.splits)
qed

lemma apts_loop_fail:
  "\<not> list_all (\<lambda>a. lengths_parse (rwys a)) as \<Longrightarrow>
   \<exists>s. apts_loop g myLoc as nearest = Inl (ValueError (IntLiteral s)) \<and> py_int s = None"
proof (induction as arbitrary: nearest)
  case Nil
  then show ?case by simp
next
  case (Cons a as)
  show ?case
  proof (cases "lengths_parse (rwys a)")
    case True
    with Cons.prems have "\<not> list_all (\<lambda>a. lengths_parse (rwys a)) as" by simp
    from Cons.IH [OF this] show ?thesis
      using rwy_loop_parse [OF True, of 0]
      by (simp add: Let_def split: prod.splits)
  next
    case False
    from rwy_loop_fail [OF this, of 0] show ?thesis by auto
  qed
qed

lemma airports_loop_parse:
  "list_all (\<lambda>a. lengths_parse (rwys a)) apts \<Longrightarrow>
   airports_loop g current_loc a m apts nearest =
     Inr (nearest @ map (\<lambda>apt. (a, snd (snd (g (snd current_loc) (fst current_loc)
                                               (snd (location a)) (fst (location a))))))
                      (long_enough m apts))"
proof (induction apts arbitrary: nearest)
  case Nil
  then show ?case by (simp add: long_enough_def)
next
  case (Cons apt apts)
  then have P: "lengths_parse (rwys apt)" and Q: "list_all (\<lambda>a. lengths_parse (rwys a)) apts"
    by simp_all
  have L: "rwy_loop (rwys apt) 0 = Inr (usable_runway_length apt)"
    using rwy_loop_parse [OF P] by (simp add: usable_runway_length_def)
  show ?case
    using Cons.IH [OF Q] L
    by (simp add: long_enough_def split: prod.splits)
qed

lemma airports_loop_fail:
  "\<not> list_all (\<lambda>a. lengths_parse (rwys a)) apts \<Longrightarrow>
   \<exists>s. airports_loop g current_loc a m apts nearest = Inl (ValueError (IntLiteral s))
       \<and> py_int s = None"
proof (induction apts arbitrary: nearest)
  case Nil
  then show ?case by simp
next
  case (Cons apt apts)
  show ?case
  proof (cases "lengths_parse (rwys apt)")
    case True
    with Cons.prems have "\<not> list_all (\<lambda>a. lengths_parse (rwys a)) apts" by simp
    from Cons.IH [OF this] show ?thesis
      using rwy_loop_parse [OF True, of 0]
      by (simp split: prod.splits)
  next
    case False
    from rwy_loop_fail [OF this, of 0] show ?thesis by auto
  qed
qed

lemma usable_runway_length_eq:
  "lengths_parse (rwys a) \<Longrightarrow> rwy_loop (rwys a) 0 = Inr l \<Longrightarrow> usable_runway_length a = l"
  using rwy_loop_parse [of "rwys a" 0] by (simp add: usable_runway_length_def)

lemma water_only_unusable:
  "list_all (\<lambda>r. surface r = ''WATER'' \<or> surface r = ''TURF'') (rwys a) \<Longrightarrow> usable_runway_length a = 0"
proof -
  assume "list_all (\<lambda>r. surface r = ''WATER'' \<or> surface r = ''TURF'') (rwys a)"
  then have "filter usable_rwy (rwys a) = []"
    by (auto simp: usable_rwy_def list_all_iff filter_empty_conv)
  then show ?thesis
    by (simp add: usable_runway_length_def usable_lengths_def)
qed

lemma py_take_nonneg: "0 \<le> k \<Longrightarrow> py_take k xs = take (nat k) xs"
  by (simp add: py_take_def)


lemma nearestApts_Inr:
  assumes "nearestApts g apts aptID num = Inr res"
  obtains myApt where "find_apt apts aptID = Some myApt"
    and "list_all (\<lambda>a. lengths_parse (rwys a)) apts"
    and "res = py_take (min num (int (length (qualifying g (location myApt) apts))))
                 (sort_key (\<lambda>x. snd (snd x))
                    (map (\<lambda>a. (a, bearing_deg g (location myApt) a, range_nm g (location myApt) a))
                       (qualifying g (location myApt) apts)))"
proof -
  from assms obtain myApt where F: "find_apt apts aptID = Some myApt"
    by (auto simp: nearestApts_def split: option.splits)
  have P: "list_all (\<lambda>a. lengths_parse (rwys a)) apts"
  proof (rule ccontr)
    assume "\<not> ?thesis"
    from apts_loop_fail [OF this, of g "location myApt" "[]"] assms F show False
      by (auto simp: nearestApts_def)
  qed
  from assms F apts_loop_parse [OF P, of g "location myApt" "[]"]
  have "res = py_take (min num (int (length (qualifying g (location myApt) apts))))
                 (sort_key (\<lambda>x. snd (snd x))
                    (map (\<lambda>a. (a, bearing_deg g (location myApt) a, range_nm g (location myApt) a))
                       (qualifying g (location myApt) apts)))"
    by (auto simp: nearestApts_def Let_def)
  with F P show thesis by (rule that)
qed



lemma insort_key_same: "insort_key f x (replicate n x) = x # replicate n x"
  by (cases n) simp_all

lemma sort_key_replicate: "sort_key f (replicate n x) = replicate n x"
  by (induction n) (simp_all add: insort_key_same)

lemma centers_loop_replicate:
  "centers_loop (replicate k x) cs =
     (if k = 0 \<or> responsible_artcc (fst x) \<in> set cs then cs
      else cs @ [responsible_artcc (fst x)])"
  by (induction k arbitrary: cs) auto

lemma apts_sorted_origin:
  assumes F: "find_airport apts ident = Some sel" and P: "all_lengths_parse apts" and N: "0 \<le> num"
  shows "apts_sorted g apts ident num m =
           Inr (replicate (nat (min num (int (length (long_enough m apts)))))
                  (sel, snd (snd (g (snd (location sel)) (fst (location sel))
                                    (snd (location sel)) (fst (location sel))))))"
proof -
  let ?d = "snd (snd (g (snd (location sel)) (fst (location sel))
                        (snd (location sel)) (fst (location sel))))"
  let ?n = "length (long_enough m apts)"
  from P have P': "list_all (\<lambda>a. lengths_parse (rwys a)) apts"
    by (simp add: all_lengths_parse_def)
  have L: "airports_loop g (location sel) sel m apts [] = Inr (replicate ?n (sel, ?d))"
    using airports_loop_parse [OF P', of g "location sel" sel m "[]"]
    by (simp add: map_replicate_const)
  have M: "min (nat (min num (int ?n))) ?n = nat (min num (int ?n))"
    using N by arith
  show ?thesis
    using F N L M by (simp add: apts_sorted_def sort_key_replicate py_take_nonneg)
qed

lemma nearest_airports_returns_origin:
  assumes F: "find_airport apts ident = Some sel" and P: "all_lengths_parse apts" and N: "0 \<le> num"
  shows "nearest_airports g apts ident num m return_string get_centers =
           (let k = nat (min num (int (length (long_enough m apts))))
            in Inr (replicate k (if return_string then Str (icao_ident sel) else Obj sel)
                    @ (if get_centers \<and> 0 < k then [Str (responsible_artcc sel)] else [])))"
  by (auto simp: nearest_airports_def apts_sorted_origin [OF F P N] centers_loop_replicate Let_def
        min_def)


subsection \<open>Resolving the origin\<close>

lemma find_airport_None:
  "find_airport apts ident = None \<longleftrightarrow> (\<forall>a\<in>set apts. upper (icao_ident a) \<noteq> upper ident)"
  by (induction apts) auto

lemma find_airport_Some:
  "find_airport apts ident = Some a \<Longrightarrow> a \<in> set apts \<and> upper (icao_ident a) = upper ident"
  by (induction apts) (auto split: if_splits)

lemma find_apt_None:
  "find_apt apts ident = None \<longleftrightarrow> (\<forall>a\<in>set apts. icao_ident a \<noteq> ident)"
  by (induction apts) auto

lemma nearest_airports_not_found:
  "find_airport apts ident = None \<Longrightarrow>
   nearest_airports g apts ident num m rs gc = Inl (ValueError (NotFound ident))"
  by (simp add: nearest_airports_def apts_sorted_def)

lemma get_data_not_found:
  "find_airport apts ident = None \<Longrightarrow> get_data apts ident = Inl (ValueError (NotFound ident))"
  by (simp add: get_data_def)

lemma nearestApts_not_found:
  "find_apt apts aptID = None \<Longrightarrow> nearestApts g apts aptID num = Inl AttributeError"
  by (simp add: nearestApts_def)

subsection \<open>Bearing and range of the entries\<close>

lemma bearing_deg_bounds:
  assumes "- 360 \<le> fst (g (snd myLoc) (fst myLoc) (snd (location a)) (fst (location a)))"
    and "fst (g (snd myLoc) (fst myLoc) (snd (location a)) (fst (location a))) < 360"
  shows "0 \<le> bearing_deg g myLoc a \<and> bearing_deg g myLoc a < 360"
  using assms by (simp add: bearing_deg_def Let_def)

lemma nearestApts_entries:
  assumes "nearestApts g apts aptID num = Inr res" and "(a, b, r) \<in> set res"
  shows "\<exists>myApt. find_apt apts aptID = Some myApt \<and> a \<in> set apts
           \<and> b = bearing_deg g (location myApt) a \<and> r = range_nm g (location myApt) a"
proof -
  from assms(1) obtain myApt where F: "find_apt apts aptID = Some myApt"
    and res: "res = py_take (min num (int (length (qualifying g (location myApt) apts))))
                 (sort_key (\<lambda>x. snd (snd x))
                    (map (\<lambda>a. (a, bearing_deg g (location myApt) a, range_nm g (location myApt) a))
                       (qualifying g (location myApt) apts)))"
    by (rule nearestApts_Inr)
  have "set (py_take k xs) \<subseteq> set xs" for k and xs :: "(airport \<times> real \<times> real) list"
    by (auto simp: py_take_def dest: in_set_takeD)
  with assms(2) res
  have "(a, b, r) \<in> set (map (\<lambda>a. (a, bearing_deg g (location myApt) a, range_nm g (location myApt) a))
                       (qualifying g (location myApt) apts))"
    by fastforce
  then show ?thesis
    using F by (auto simp: qualifying_def)
qed

lemma bearing_range_value:
  assumes "bearing_range g apts orig dest = Inr (b, r)"
  shows "\<exists>origin destination. get_data apts orig = Inr origin \<and> get_data apts dest = Inr destination
           \<and> b = bearing_deg g (location origin) destination
           \<and> r = range_nm g (location origin) destination"
  using assms
  by (auto simp: bearing_range_def bearing_deg_def range_nm_def Let_def add.commute
      split: sum.splits prod.splits)

subsection \<open>Evaluation of the examples\<close>

lemmas py_eval = py_int_def int_strip_def int_isspace_def lstrip_def rstrip_def py_isspace_def
  int_unsigned_def
  is_digit_def digit_val_def

lemma py_int_blank: "py_int [] = None"
  by (simp add: py_eval)

lemma sel_kvps:
  "icao_ident kvps = ''KVPS''" "location kvps = (30, -86)"
  "rwy_loop (rwys kvps) 0 = Inr 12005"
  by (simp_all add: kvps_def test_apt_def test_rwy_def py_eval)

lemma sel_kpam:
  "icao_ident kpam = ''KPAM''" "location kpam = (31, -85)"
  "rwy_loop (rwys kpam) 0 = Inr 10008"
  by (simp_all add: kpam_def test_apt_def test_rwy_def py_eval)

lemma sel_knpa:
  "icao_ident knpa = ''KNPA''" "location knpa = (32, -88)"
  "rwy_loop (rwys knpa) 0 = Inr 8002"
  by (simp_all add: knpa_def test_apt_def test_rwy_def py_eval)

lemma sel_kfar:
  "icao_ident kfar = ''KFAR''" "location kfar = (140 / 3, -86)"
  "rwy_loop (rwys kfar) 0 = Inr 10000"
  by (simp_all add: kfar_def test_apt_def test_rwy_def py_eval)

lemma sel_seaplane:
  "icao_ident seaplane_base = ''K5FL''" "location seaplane_base = (29, -85)"
  "rwy_loop (rwys seaplane_base) 0 = Inr 0"
  by (simp_all add: seaplane_base_def test_apt_def test_rwy_def py_eval)

lemma sel_blank:
  "icao_ident blank_length = ''KXYZ''" "location blank_length = (29, -87)"
  "rwy_loop (rwys blank_length) 0 = Inl (ValueError (IntLiteral []))"
  "\<not> lengths_parse (rwys blank_length)"
  by (simp_all add: blank_length_def test_apt_def test_rwy_def py_eval lengths_parse_def usable_rwy_def)

lemma parse_examples:
  "lengths_parse (rwys kvps)" "lengths_parse (rwys kpam)" "lengths_parse (rwys knpa)"
  "lengths_parse (rwys kfar)" "lengths_parse (rwys seaplane_base)"
  by (simp_all add: lengths_parse_def usable_rwy_def kvps_def kpam_def knpa_def kfar_def
        seaplane_base_def test_apt_def test_rwy_def py_eval)

lemma usable_examples:
  "usable_runway_length kvps = 12005" "usable_runway_length kpam = 10008"
  "usable_runway_length knpa = 8002" "usable_runway_length kfar = 10000"
  "usable_runway_length seaplane_base = 0"
  by (simp_all add: usable_runway_length_eq parse_examples sel_kvps sel_kpam sel_knpa sel_kfar
        sel_seaplane)

lemma range_examples:
  "range_nm test_geod (30, -86) kvps = 0" "range_nm test_geod (30, -86) kpam = 60"
  "range_nm test_geod (30, -86) knpa = 120"
  "range_nm test_geod (30, -86) kfar = 1000" "range_nm test_geod (30, -86) seaplane_base = 60"
  "bearing_deg test_geod (30, -86) kvps = 0" "bearing_deg test_geod (30, -86) kpam = 1"
  by (simp_all add: range_nm_def bearing_deg_def test_geod_def sel_kvps sel_kpam sel_knpa sel_kfar
        sel_seaplane)

lemma seaplane_water:
  "list_all (\<lambda>r. surface r = ''WATER'' \<or> surface r = ''TURF'') (rwys seaplane_base)"
  by (simp add: seaplane_base_def test_apt_def test_rwy_def)

lemma find_examples:
  "find_apt [knpa, kpam, kvps] ''KVPS'' = Some kvps"
  "find_apt [knpa, kpam, kvps] ''kvps'' = None"
  "find_apt [knpa, kpam, kvps] ''ZZZZ'' = None"
  "find_airport [knpa, kpam, kvps] ''KVPS'' = Some kvps"
  "find_airport [knpa, kpam, kvps] ''kvps'' = Some kvps"
  "find_airport [knpa, kpam, kvps] ''ZZZZ'' = None"
  by (simp_all add: sel_kvps sel_kpam sel_knpa upper_def upper_char_def char_of_def bit_0)

lemma find_kvps:
  "find_apt [knpa, blank_length, kvps] ''KVPS'' = Some kvps"
  "find_airport [knpa, blank_length, kvps] ''kvps'' = Some kvps"
  by (simp_all add: sel_kvps sel_knpa sel_blank upper_def upper_char_def char_of_def bit_0)

lemma all_parse_example: "all_lengths_parse [knpa, kpam, kvps]"
  by (simp add: all_lengths_parse_def parse_examples)

lemma long_enough_example: "long_enough 8000 [knpa, kpam, kvps] = [knpa, kpam, kvps]"
  by (simp add: long_enough_def usable_examples)


lemma nearestApts_example: "nearestApts test_geod [knpa, kpam, kvps] ''KVPS'' 2 = Inr [(kvps, 0, 0), (kpam, 1, 60)]"
  by (simp add: nearestApts_def sel_kvps sel_kpam sel_knpa test_geod_def py_take_def)

section \<open>Results about the query\<close>



text \<open>C2, as stated, fails on \<open>nearestApts\<close>: the range cap is strict.  An airport with
  a usable runway of 10000 ft at a range of exactly 1000 nautical miles is not kept.\<close>

theorem range_cap_is_strict_counterexample:
  "usable_runway_length kfar = 10000
   \<and> range_nm test_geod (location kvps) kfar = 1000
   \<and> nearestApts test_geod [kfar, kvps] ''KVPS'' 20 = Inr [(kvps, 0, 0)]"
  by (simp add: usable_examples range_nm_def nearestApts_def sel_kvps sel_kfar test_geod_def
        py_take_def)

text \<open>C2, amended.  When every counted length is an integer, the filter loop of
  \<open>nearestApts\<close> keeps exactly the airports whose usable runway length is at least 8000
  and whose range is strictly below 1000 nautical miles, each with its bearing and
  range; the loop of \<open>nearest_airports\<close> appends one entry for each airport whose usable
  runway length is at least \<open>min_rwy_length\<close>, with no range cap; and an airport with
  no runway, or with only WATER or TURF runways, has usable length 0 and is kept by
  neither once the minimum is positive.\<close>

theorem filter_keeps_long_and_near:
  assumes "all_lengths_parse apts"
  shows "apts_loop g myLoc apts [] =
           Inr (map (\<lambda>a. (a, bearing_deg g myLoc a, range_nm g myLoc a))
                  (filter (\<lambda>a. usable_runway_length a \<ge> 8000 \<and> range_nm g myLoc a < 1000) apts))
         \<and> map_sum id length (airports_loop g current_loc sel m apts []) =
             Inr (length (filter (\<lambda>apt. usable_runway_length apt \<ge> m) apts))
         \<and> (\<forall>a \<in> set apts.
               list_all (\<lambda>r. surface r = ''WATER'' \<or> surface r = ''TURF'') (rwys a) \<longrightarrow>
                 usable_runway_length a = 0 \<and> a \<notin> set (qualifying g myLoc apts)
                 \<and> (0 < m \<longrightarrow> a \<notin> set (long_enough m apts)))"
proof -
  from assms have P: "list_all (\<lambda>a. lengths_parse (rwys a)) apts"
    by (simp add: all_lengths_parse_def)
  have 1: "apts_loop g myLoc apts [] =
           Inr (map (\<lambda>a. (a, bearing_deg g myLoc a, range_nm g myLoc a))
                  (filter (\<lambda>a. usable_runway_length a \<ge> 8000 \<and> range_nm g myLoc a < 1000) apts))"
    using apts_loop_parse [OF P, of g myLoc "[]"] by (simp add: qualifying_def)
  have 2: "map_sum id length (airports_loop g current_loc sel m apts []) =
             Inr (length (filter (\<lambda>apt. usable_runway_length apt \<ge> m) apts))"
    using airports_loop_parse [OF P, of g current_loc sel m "[]"] by (simp add: long_enough_def)
  have 3: "usable_runway_length a = 0 \<and> a \<notin> set (qualifying g myLoc apts)
             \<and> (0 < m \<longrightarrow> a \<notin> set (long_enough m apts))"
    if "list_all (\<lambda>r. surface r = ''WATER'' \<or> surface r = ''TURF'') (rwys a)" for a
    using water_only_unusable [OF that] by (simp add: qualifying_def long_enough_def)
  from 1 2 3 show ?thesis by blast
qed

theorem filter_keeps_long_and_near_witness:
  "all_lengths_parse [seaplane_base, kfar, kpam, kvps]
   \<and> apts_loop test_geod (30, -86) [seaplane_base, kfar, kpam, kvps] []
       = Inr [(kpam, 1, 60), (kvps, 0, 0)]
   \<and> map_sum id length (airports_loop test_geod (30, -86) kvps 8000
                           [seaplane_base, kfar, kpam, kvps] []) = Inr 3
   \<and> list_all (\<lambda>r. surface r = ''WATER'' \<or> surface r = ''TURF'') (rwys seaplane_base)
   \<and> usable_runway_length seaplane_base = 0
   \<and> seaplane_base \<notin> set (qualifying test_geod (30, -86) [seaplane_base, kfar, kpam, kvps])
   \<and> seaplane_base \<notin> set (long_enough 8000 [seaplane_base, kfar, kpam, kvps])"
proof -
  have P: "all_lengths_parse [seaplane_base, kfar, kpam, kvps]"
    by (simp add: all_lengths_parse_def parse_examples)
  from filter_keeps_long_and_near [OF P, of test_geod "(30, -86)" "(30, -86)" kvps 8000]
    P seaplane_water
  show ?thesis
    by (simp add: usable_examples range_examples)
qed

text \<open>C3.  \<open>nearest_airports\<close> and \<open>get_data\<close> of AvData.py match the identifier without
  regard to case and raise the \<open>ValueError\<close> "not found" when nothing matches
  (\<open>nearest_airports_not_found\<close>, \<open>get_data_not_found\<close>).  \<open>nearestApts\<close> of AeroData.py
  does neither: it compares with \<open>==\<close>, and for an identifier it does not find it
  fails with the \<open>AttributeError\<close> of \<open>None.location\<close>.\<close>

theorem nearestApts_unknown_origin:
  "nearestApts test_geod [knpa, kpam, kvps] ''kvps'' 2 = Inl AttributeError
   \<and> nearestApts test_geod [knpa, kpam, kvps] ''ZZZZ'' 2 = Inl AttributeError
   \<and> nearest_airports test_geod [knpa, kpam, kvps] ''ZZZZ'' 2 8000 True True
       = Inl (ValueError (NotFound ''ZZZZ''))
   \<and> get_data [knpa, kpam, kvps] ''kvps'' = Inr kvps"
  by (simp only: nearestApts_not_found [OF find_examples(2)]
        nearestApts_not_found [OF find_examples(3)]
        nearest_airports_not_found [OF find_examples(6)] get_data_def find_examples(5)
        option.case simp_thms)

text \<open>C4.  \<open>nearestApts\<close> and \<open>bearing_range\<close> compute bearing and range from the origin
  to the airport itself (\<open>nearestApts_entries\<close>, \<open>bearing_range_value\<close>), and the bearing
  lies in [0, 360) when pyproj's azimuth lies in [-360, 360) (\<open>bearing_deg_bounds\<close>).
  \<open>nearest_airports\<close> of AvData.py reads \<open>a.location\<close> and appends \<open>a\<close>, the selected
  airport, where its loop variable is \<open>apt\<close>: every entry it returns is the origin
  (\<open>nearest_airports_returns_origin\<close>).  On the catalogue KNPA, KPAM, KVPS with origin KVPS
  and count 2 it returns KVPS twice, where \<open>nearestApts\<close> returns KVPS and KPAM.\<close>

theorem nearest_airports_repeats_origin:
  "nearest_airports test_geod [knpa, kpam, kvps] ''KVPS'' 2 8000 True False
     = Inr [Str ''KVPS'', Str ''KVPS'']
   \<and> nearest_airports test_geod [knpa, kpam, kvps] ''KVPS'' 2 8000 True True
     = Inr [Str ''KVPS'', Str ''KVPS'', Str ''KZJX'']
   \<and> nearestApts test_geod [knpa, kpam, kvps] ''KVPS'' 2 = Inr [(kvps, 0, 0), (kpam, 1, 60)]"
  by (simp add: nearest_airports_returns_origin [OF find_examples(4) all_parse_example]
        long_enough_example nearestApts_example sel_kvps numeral_2_eq_2)
    (simp add: kvps_def test_apt_def)

text \<open>C10.  Once the origin is resolved, either query returns a result exactly when
  every runway that counts (surface neither WATER nor TURF), at every airport of the
  catalogue, has a length that \<open>int\<close> accepts; otherwise the whole query fails with the
  \<open>ValueError\<close> of \<open>int\<close> on a rejected string.  A blank length field is such a
  string (\<open>py_int_blank\<close>).\<close>

theorem query_needs_integer_lengths:
  "(find_apt apts aptID = Some myApt \<longrightarrow>
      (if all_lengths_parse apts
       then \<exists>res. nearestApts g apts aptID num = Inr res
       else \<exists>s. nearestApts g apts aptID num = Inl (ValueError (IntLiteral s)) \<and> py_int s = None))
   \<and> (find_airport apts ident = Some sel \<longrightarrow>
      (if all_lengths_parse apts
       then \<exists>res. nearest_airports g apts ident num m rs gc = Inr res
       else \<exists>s. nearest_airports g apts ident num m rs gc = Inl (ValueError (IntLiteral s))
              \<and> py_int s = None))"
proof (cases "all_lengths_parse apts")
  case True
  then have P: "list_all (\<lambda>a. lengths_parse (rwys a)) apts"
    by (simp add: all_lengths_parse_def)
  have "\<exists>res. nearestApts g apts aptID num = Inr res" if "find_apt apts aptID = Some myApt"
    using that apts_loop_parse [OF P, of g "location myApt" "[]"]
    by (simp add: nearestApts_def Let_def)
  moreover
  have "\<exists>res. nearest_airports g apts ident num m rs gc = Inr res"
    if "find_airport apts ident = Some sel"
    using that airports_loop_parse [OF P, of g "location sel" sel m "[]"]
    by (simp add: nearest_airports_def apts_sorted_def Let_def)
  ultimately show ?thesis using True by simp
next
  case False
  then have P: "\<not> list_all (\<lambda>a. lengths_parse (rwys a)) apts"
    by (simp add: all_lengths_parse_def)
  have "\<exists>s. nearestApts g apts aptID num = Inl (ValueError (IntLiteral s)) \<and> py_int s = None"
    if "find_apt apts aptID = Some myApt"
    using that apts_loop_fail [OF P, of g "location myApt" "[]"]
    by (auto simp: nearestApts_def)
  moreover
  have "\<exists>s. nearest_airports g apts ident num m rs gc = Inl (ValueError (IntLiteral s))
          \<and> py_int s = None"
    if "find_airport apts ident = Some sel"
    using that airports_loop_fail [OF P, of g "location sel" sel m "[]"]
    by (auto simp: nearest_airports_def apts_sorted_def)
  ultimately show ?thesis using False by simp
qed

theorem query_needs_integer_lengths_witness:
  "find_apt [knpa, blank_length, kvps] ''KVPS'' = Some kvps
   \<and> find_airport [knpa, blank_length, kvps] ''kvps'' = Some kvps
   \<and> \<not> all_lengths_parse [knpa, blank_length, kvps]
   \<and> (\<exists>s. nearestApts test_geod [knpa, blank_length, kvps] ''KVPS'' 10
              = Inl (ValueError (IntLiteral s)) \<and> py_int s = None)
   \<and> (\<exists>s. nearest_airports test_geod [knpa, blank_length, kvps] ''kvps'' 10 8000 True True
              = Inl (ValueError (IntLiteral s)) \<and> py_int s = None)
   \<and> find_apt [knpa, kpam, kvps] ''KVPS'' = Some kvps
   \<and> find_airport [knpa, kpam, kvps] ''kvps'' = Some kvps
   \<and> all_lengths_parse [knpa, kpam, kvps]
   \<and> (\<exists>res. nearestApts test_geod [knpa, kpam, kvps] ''KVPS'' 10 = Inr res)
   \<and> (\<exists>res. nearest_airports test_geod [knpa, kpam, kvps] ''kvps'' 10 8000 True True = Inr res)"
proof -
  have N: "\<not> all_lengths_parse [knpa, blank_length, kvps]"
    by (simp add: all_lengths_parse_def sel_blank)
  from query_needs_integer_lengths
         [of "[knpa, blank_length, kvps]" "''KVPS''" kvps test_geod 10 "''kvps''" kvps 8000 True True]
       query_needs_integer_lengths
         [of "[knpa, kpam, kvps]" "''KVPS''" kvps test_geod 10 "''kvps''" kvps 8000 True True]
  show ?thesis
    by (simp only: find_kvps find_examples N all_parse_example simp_thms if_True if_False)
qed

section \<open>Properties of the parser\<close>

subsection \<open>Evaluation of the example lines\<close>

lemma float_examples:
  "float_decimal ''59.5810'' = Some (59581 / 1000)"
  "float_decimal ''31.4250'' = Some (31425 / 1000)"
  by (simp_all add: float_decimal_def digits_nat_def is_digit_def digit_val_def)

lemma int_examples:
  "py_int ''30'' = Some 30" "py_int ''28'' = Some 28" "py_int ''086'' = Some 86" "py_int ''31'' = Some 31"
  by (simp_all add: py_eval)

lemma float_examples2:
  "float_decimal ''04.2000'' = Some (42 / 10)"
  "float_decimal ''12.9000'' = Some (129 / 10)"
  by (simp_all add: float_decimal_def digits_nat_def is_digit_def digit_val_def)

lemma int_examples2:
  "py_int ''21'' = Some 21" "py_int ''19'' = Some 19" "py_int ''157'' = Some 157" "py_int ''55'' = Some 55"
  by (simp_all add: py_eval)

lemma dropWhile_replicate_append:
  "P x \<Longrightarrow> dropWhile P (replicate n x @ ys) = dropWhile P ys"
  by (induction n) simp_all

lemma tag_examples:
  "slice 0 3 (apt_line ident lat lon) = ''APT''"
  "slice 0 3 (rwy_line rid len sc) = ''RWY''"
  by (simp_all add: apt_line_def rwy_line_def pad_def slice_def)

subsection \<open>Coordinates\<close>

lemma convertToDeg_fields:
  assumes "length d1 = 2" and "length m1 = 2" and "length sec1 = 7"
    and "length d2 = 3" and "length m2 = 2" and "length sec2 = 7"
    and "py_int d1 = Some D1" and "py_int m1 = Some M1" and "py_float sec1 = Some S1"
    and "py_int d2 = Some D2" and "py_int m2 = Some M2" and "py_float sec2 = Some S2"
  shows "convertToDeg py_float (d1 @ ''-'' @ m1 @ ''-'' @ sec1 @ [h1])
                               (d2 @ ''-'' @ m2 @ ''-'' @ sec2 @ [h2]) =
           Inr ((if h1 = CHR ''S'' then - (of_int D1 + of_int M1 / 60 + S1 / 3600)
                 else of_int D1 + of_int M1 / 60 + S1 / 3600),
                (if h2 = CHR ''W'' then - (of_int D2 + of_int M2 / 60 + S2 / 3600)
                 else of_int D2 + of_int M2 / 60 + S2 / 3600))"
proof -
  let ?s1 = "d1 @ ''-'' @ m1 @ ''-'' @ sec1 @ [h1]"
  let ?s2 = "d2 @ ''-'' @ m2 @ ''-'' @ sec2 @ [h2]"
  have 1: "slice 0 2 ?s1 = d1" "slice 3 5 ?s1 = m1" "slice 6 13 ?s1 = sec1" "last ?s1 = h1"
    using assms(1-3) by (simp_all add: slice_def)
  have 2: "slice 0 3 ?s2 = d2" "slice 4 6 ?s2 = m2" "slice 7 14 ?s2 = sec2" "last ?s2 = h2"
    using assms(4-6) by (simp_all add: slice_def)
  have 3: "?s1 \<noteq> []" "?s2 \<noteq> []" by simp_all
  show ?thesis
    unfolding convertToDeg_def 1 2
    using assms(7-12) 3
    by (simp add: int_str_def float_str_def last_char_def degrees_def 1 2 del: append_assoc)
qed

text \<open>C6.  On a pair of strings in the layout DD-MM-SS.SSSSH and DDD-MM-SS.SSSSH (degrees
  of two digits for the latitude and of three for the longitude, minutes of two
  characters, seconds of seven, one hemisphere letter), \<open>convertToDeg\<close> returns
  degrees + minutes/60 + seconds/3600 of each, the components read by \<open>int\<close> and
  \<open>float\<close> from these fixed offsets, negated for the latitude when its letter is S and
  for the longitude when its letter is W, and not negated for any other letter.\<close>

theorem convertToDeg_layout:
  assumes "length d1 = 2" and "length m1 = 2" and "length sec1 = 7"
    and "length d2 = 3" and "length m2 = 2" and "length sec2 = 7"
    and "py_int d1 = Some D1" and "py_int m1 = Some M1" and "py_float sec1 = Some S1"
    and "py_int d2 = Some D2" and "py_int m2 = Some M2" and "py_float sec2 = Some S2"
  shows "convertToDeg py_float (d1 @ ''-'' @ m1 @ ''-'' @ sec1 @ [h1])
                               (d2 @ ''-'' @ m2 @ ''-'' @ sec2 @ [h2]) =
           Inr ((if h1 = CHR ''S'' then - (of_int D1 + of_int M1 / 60 + S1 / 3600)
                 else of_int D1 + of_int M1 / 60 + S1 / 3600),
                (if h2 = CHR ''W'' then - (of_int D2 + of_int M2 / 60 + S2 / 3600)
                 else of_int D2 + of_int M2 / 60 + S2 / 3600))"
  using assms by (rule convertToDeg_fields)

theorem convertToDeg_layout_witness:
  "length ''30'' = 2 \<and> length ''086'' = 3 \<and> length ''59.5810'' = 7
   \<and> py_int ''30'' = Some 30 \<and> py_int ''28'' = Some 28
   \<and> float_decimal ''59.5810'' = Some (59581 / 1000)
   \<and> convertToDeg float_decimal ''30-28-59.5810N'' ''086-31-31.4250W''
       = Inr (30 + 28 / 60 + 59581 / 1000 / 3600, - (86 + 31 / 60 + 31425 / 1000 / 3600))
   \<and> convertToDeg float_decimal ''33-56-46.0000S'' ''151-10-38.0000E''
       = Inr (- (33 + 56 / 60 + 46 / 3600), 151 + 10 / 60 + 38 / 3600)"
proof -
  have I: "py_int ''33'' = Some 33" "py_int ''56'' = Some 56" "py_int ''151'' = Some 151"
    "py_int ''10'' = Some 10"
    by (simp_all add: py_eval)
  have F: "float_decimal ''46.0000'' = Some 46" "float_decimal ''38.0000'' = Some 38"
    by (simp_all add: float_decimal_def digits_nat_def is_digit_def digit_val_def)
  from convertToDeg_layout [of "''30''" "''28''" "''59.5810''" "''086''" "''31''" "''31.4250''"
          30 28 float_decimal "59581 / 1000" 86 31 "31425 / 1000" "CHR ''N''" "CHR ''W''"]
       convertToDeg_layout [of "''33''" "''56''" "''46.0000''" "''151''" "''10''" "''38.0000''"
          33 56 float_decimal 46 151 10 38 "CHR ''S''" "CHR ''E''"]
  show ?thesis
    by (simp add: int_examples float_examples I F)
qed

lemma apt_fields_vps:
  "apt_fields float_decimal (apt_line ''VPS'' ''30-28-59.5810N'' ''086-31-31.4250W'')
     = Inr (parsed_apt ''KVPS'' (30 + 28 / 60 + 59581 / 3600000, - (86 + 31 / 60 + 31425 / 3600000)) [])"
  using convertToDeg_fields [of "''30''" "''28''" "''59.5810''" "''086''" "''31''" "''31.4250''"
          30 28 float_decimal "59581 / 1000" 86 31 "31425 / 1000" "CHR ''N''" "CHR ''W''"]
  by (simp add: apt_fields_def apt_line_def pad_def slice_def int_examples float_examples
        rstrip_def lstrip_def py_isspace_def k_prefix_def parsed_apt_def)
    (simp add: numeral_3_eq_3 numeral_2_eq_2)

lemma apt_fields_phnl:
  "apt_fields float_decimal (apt_line ''PHNL'' ''21-19-04.2000N'' ''157-55-12.9000W'')
     = Inr (parsed_apt ''PHNL'' (21 + 19 / 60 + 42 / 36000, - (157 + 55 / 60 + 129 / 36000)) [])"
  using convertToDeg_fields [of "''21''" "''19''" "''04.2000''" "''157''" "''55''" "''12.9000''"
          21 19 float_decimal "42 / 10" 157 55 "129 / 10" "CHR ''N''" "CHR ''W''"]
  by (simp add: apt_fields_def apt_line_def pad_def slice_def int_examples2 float_examples2
        rstrip_def lstrip_def py_isspace_def k_prefix_def parsed_apt_def)
    (simp add: numeral_3_eq_3 numeral_2_eq_2)

lemma decode_rwy_examples:
  "decode_rwy (rwy_line ''01/19'' ''10012'' ''ASPH-CONC-G'') = parsed_rwy ''01/19'' ''10012'' ''ASPH-CONC'' ''G''"
  "decode_rwy (rwy_line ''12/30'' ''12005'' ''CONC-G'') = parsed_rwy ''12/30'' ''12005'' ''CONC'' ''G''"
  "decode_rwy (rwy_line ''H1'' ''   60'' ''TURF'') = parsed_rwy ''H1'' ''60'' ''TURF'' []"
  "decode_rwy (rwy_line ''08W/26W'' '' 5000'' ''WATER'') = parsed_rwy ''08W/26W'' ''5000'' ''WATER'' []"
  by (simp_all add: decode_rwy_def rwy_line_def pad_def slice_def rstrip_def lstrip_def
        dropWhile_replicate_append py_isspace_def rsplit1_def parsed_rwy_def)

subsection \<open>The scan of an airport's block\<close>

lemma rsplit1_last:
  assumes "sep \<notin> set post"
  shows "rsplit1 sep (pre @ sep # post) = (pre, post)"
proof -
  have "takeWhile (\<lambda>c. c \<noteq> sep) (rev post @ sep # rev pre) = rev post"
    using assms by (auto simp: takeWhile_tail)
  then show ?thesis
    by (simp add: rsplit1_def)
qed

lemma rwy_scan_eq:
  "rwy_scan lines i n rs =
     (if \<exists>l\<in>set (drop (i + n) lines). boundary l
      then Inr (rs @ block_rwys (drop (i + n) lines))
      else Inl IndexError)"
proof (induction lines i n rs rule: rwy_scan.induct)
  case (1 lines i n rs)
  show ?case
  proof (cases "length lines \<le> i + n")
    case True
    then show ?thesis by (subst rwy_scan.simps) simp
  next
    case False
    then have D: "drop (i + n) lines = lines ! (i + n) # drop (i + (n + 1)) lines"
      by (simp add: Cons_nth_drop_Suc)
    show ?thesis
    proof (cases "boundary (lines ! (i + n))")
      case True
      then show ?thesis
        using False D by (subst rwy_scan.simps) (auto simp: boundary_def block_rwys_def)
    next
      case B: False
      then have C: "slice 0 3 (lines ! (i + n)) \<noteq> ''RMK'' \<and> slice 0 3 (lines ! (i + n)) \<noteq> ''APT''
              \<and> slice 0 3 (lines ! (i + n)) \<noteq> ''ARR''"
        by (simp add: boundary_def)
      have "rwy_scan lines i n rs =
              rwy_scan lines i (n + 1)
                (if slice 0 3 (lines ! (i + n)) = ''RWY''
                 then rs @ [decode_rwy (lines ! (i + n))] else rs)"
        using False C by (subst rwy_scan.simps) simp
      also have "\<dots> =
              (if \<exists>l\<in>set (drop (i + (n + 1)) lines). boundary l
               then Inr ((if slice 0 3 (lines ! (i + n)) = ''RWY''
                          then rs @ [decode_rwy (lines ! (i + n))] else rs)
                         @ block_rwys (drop (i + (n + 1)) lines))
               else Inl IndexError)"
        using False C by (intro "1.IH") simp_all
      also have "\<dots> = (if \<exists>l\<in>set (drop (i + n) lines). boundary l
                        then Inr (rs @ block_rwys (drop (i + n) lines))
                        else Inl IndexError)"
        unfolding D using B by (simp add: block_rwys_def is_rwy_def)
      finally show ?thesis .
    qed
  qed
qed

lemma tag_short:
  "slice 0 3 ''ATT'' = ''ATT''" "slice 0 3 ''RMK'' = ''RMK''" "slice 0 3 ''ARR'' = ''ARR''"
  by (simp_all add: slice_def)

lemmas line_tags = boundary_def is_rwy_def is_apt_def tag_examples tag_short

lemma parse_apt_vps:
  "parse_apt float_decimal vps_lines 0 =
     Inr (parsed_apt ''KVPS'' (30 + 28 / 60 + 59581 / 3600000, - (86 + 31 / 60 + 31425 / 3600000))
            [parsed_rwy ''01/19'' ''10012'' ''ASPH-CONC'' ''G'',
             parsed_rwy ''12/30'' ''12005'' ''CONC'' ''G'',
             parsed_rwy ''H1'' ''60'' ''TURF'' []])"
  by (simp add: parse_apt_def rwy_scan_eq block_rwys_def vps_lines_def apt_fields_vps line_tags
        decode_rwy_examples parsed_apt_def)

lemma parse_apt_phnl:
  "parse_apt float_decimal vps_lines 7 =
     Inr (parsed_apt ''PHNL'' (21 + 19 / 60 + 42 / 36000, - (157 + 55 / 60 + 129 / 36000))
            [parsed_rwy ''08W/26W'' ''5000'' ''WATER'' []])"
  by (simp add: parse_apt_def rwy_scan_eq block_rwys_def vps_lines_def apt_fields_phnl line_tags
        decode_rwy_examples parsed_apt_def)

lemma parseAirports_vps:
  "parseAirports float_decimal vps_lines =
     Inr [parsed_apt ''KVPS'' (30 + 28 / 60 + 59581 / 3600000, - (86 + 31 / 60 + 31425 / 3600000))
            [parsed_rwy ''01/19'' ''10012'' ''ASPH-CONC'' ''G'',
             parsed_rwy ''12/30'' ''12005'' ''CONC'' ''G'',
             parsed_rwy ''H1'' ''60'' ''TURF'' []],
          parsed_apt ''PHNL'' (21 + 19 / 60 + 42 / 36000, - (157 + 55 / 60 + 129 / 36000))
            [parsed_rwy ''08W/26W'' ''5000'' ''WATER'' []]]"
proof -
  have L: "length vps_lines = 10" by (simp add: vps_lines_def)
  have U: "[0..<10] = [0, 1, 2, 3, 4, 5, 6, 7, 8, 9::nat]"
    by (simp add: upt_rec)
  have T: "slice 0 3 (vps_lines ! 0) = ''APT''" "slice 0 3 (vps_lines ! Suc 0) = ''ATT''"
    "slice 0 3 (vps_lines ! 2) = ''RWY''" "slice 0 3 (vps_lines ! 3) = ''RWY''"
    "slice 0 3 (vps_lines ! 4) = ''RWY''" "slice 0 3 (vps_lines ! 5) = ''RMK''"
    "slice 0 3 (vps_lines ! 6) = ''RWY''" "slice 0 3 (vps_lines ! 7) = ''APT''"
    "slice 0 3 (vps_lines ! 8) = ''RWY''" "slice 0 3 (vps_lines ! 9) = ''ARR''"
    by (simp_all add: vps_lines_def line_tags)
  show ?thesis
    unfolding parseAirports_def L U
    by (simp add: T parse_apt_vps parse_apt_phnl)
qed

text \<open>C5.  The airport line at position \<open>i\<close> is decoded exactly when its own fields
  are and a boundary line (type RMK, APT or ARR) follows it.  The airport's runways are
  then the lines of type RWY strictly after \<open>i\<close> and before the first boundary line,
  decoded in the order met; the other lines in between change nothing: the airport is
  otherwise the one read from line \<open>i\<close> alone.\<close>

theorem runways_of_block:
  "parse_apt py_float lines i = Inr a \<longleftrightarrow>
     (\<exists>apt. apt_fields py_float (lines ! i) = Inr apt
        \<and> (\<exists>l\<in>set (drop (Suc i) lines). boundary l)
        \<and> a = apt\<lparr>rwys := map decode_rwy
                                (filter is_rwy
                                   (takeWhile (\<lambda>l. \<not> boundary l) (drop (Suc i) lines)))\<rparr>)"
  by (auto simp: parse_apt_def rwy_scan_eq block_rwys_def split: sum.splits)

theorem runways_of_block_witness:
  "apt_fields float_decimal (vps_lines ! 0)
     = Inr (parsed_apt ''KVPS'' (30 + 28 / 60 + 59581 / 3600000, - (86 + 31 / 60 + 31425 / 3600000)) [])
   \<and> (\<exists>l\<in>set (drop (Suc 0) vps_lines). boundary l)
   \<and> map decode_rwy (filter is_rwy (takeWhile (\<lambda>l. \<not> boundary l) (drop (Suc 0) vps_lines)))
       = [parsed_rwy ''01/19'' ''10012'' ''ASPH-CONC'' ''G'',
          parsed_rwy ''12/30'' ''12005'' ''CONC'' ''G'',
          parsed_rwy ''H1'' ''60'' ''TURF'' []]
   \<and> parse_apt float_decimal vps_lines 0 =
       Inr (parsed_apt ''KVPS'' (30 + 28 / 60 + 59581 / 3600000, - (86 + 31 / 60 + 31425 / 3600000))
              [parsed_rwy ''01/19'' ''10012'' ''ASPH-CONC'' ''G'',
               parsed_rwy ''12/30'' ''12005'' ''CONC'' ''G'',
               parsed_rwy ''H1'' ''60'' ''TURF'' []])"
proof -
  let ?loc = "(30 + 28 / 60 + 59581 / 3600000, - (86 + 31 / 60 + 31425 / 3600000)) :: real \<times> real"
  let ?rs = "[parsed_rwy ''01/19'' ''10012'' ''ASPH-CONC'' ''G'',
              parsed_rwy ''12/30'' ''12005'' ''CONC'' ''G'',
              parsed_rwy ''H1'' ''60'' ''TURF'' []]"
  have A: "apt_fields float_decimal (vps_lines ! 0) = Inr (parsed_apt ''KVPS'' ?loc [])"
    by (simp add: vps_lines_def apt_fields_vps)
  have B: "\<exists>l\<in>set (drop (Suc 0) vps_lines). boundary l"
    by (simp add: vps_lines_def line_tags)
  have C: "map decode_rwy (filter is_rwy (takeWhile (\<lambda>l. \<not> boundary l) (drop (Suc 0) vps_lines)))
             = ?rs"
    by (simp add: vps_lines_def line_tags decode_rwy_examples)
  have "parse_apt float_decimal vps_lines 0 = Inr (parsed_apt ''KVPS'' ?loc ?rs)"
    unfolding runways_of_block using A B C by (simp add: parsed_apt_def)
  with A B C show ?thesis by simp
qed

subsection \<open>A block that is not closed\<close>

lemma parse_loop_append:
  "parse_loop py_float lines (js @ ks) acc =
     (case parse_loop py_float lines js acc of
        Inl e \<Rightarrow> Inl e
      | Inr acc' \<Rightarrow> parse_loop py_float lines ks acc')"
  by (induction js arbitrary: acc) (auto split: sum.splits)

lemma parse_loop_ok:
  "(\<And>j. j \<in> set js \<Longrightarrow> is_apt (lines ! j) \<Longrightarrow> \<exists>a. parse_apt py_float lines j = Inr a) \<Longrightarrow>
   \<exists>res. parse_loop py_float lines js acc = Inr res"
proof (induction js arbitrary: acc)
  case Nil
  then show ?case by simp
next
  case (Cons j js)
  have R: "\<exists>res. parse_loop py_float lines js acc' = Inr res" for acc'
    by (rule Cons.IH) (simp add: Cons.prems)
  show ?case
  proof (cases "is_apt (lines ! j)")
    case True
    with Cons.prems [of j] obtain a where "parse_apt py_float lines j = Inr a" by auto
    with True R [of "acc @ [a]"] show ?thesis by (simp add: is_apt_def)
  next
    case False
    with R [of acc] show ?thesis by (simp add: is_apt_def)
  qed
qed

text \<open>C7, as stated, fails: the code has no error of its own for a block that is not
  closed.  On an airport line followed only by a runway line the pass ends with the
  \<open>IndexError\<close> of \<open>lines[i+n]\<close>, the out-of-bounds fault itself.\<close>

theorem scan_past_end_counterexample:
  "parseAirports float_decimal unterminated_lines = Inl IndexError"
proof -
  have "parse_apt float_decimal unterminated_lines 0 = Inl IndexError"
    by (simp add: parse_apt_def rwy_scan_eq unterminated_lines_def apt_fields_vps line_tags)
  moreover have "[0..<2] = [0, Suc 0]" by (simp add: upt_rec)
  moreover have "length unterminated_lines = 2" "slice 0 3 (unterminated_lines ! 0) = ''APT''"
    by (simp_all add: unterminated_lines_def line_tags)
  ultimately show ?thesis
    by (simp add: parseAirports_def)
qed

text \<open>C7, amended.  When an airport line at position \<open>i\<close> has no boundary line after it,
  and the coordinates of every airport line up to \<open>i\<close> convert, the parse pass fails
  with \<open>IndexError\<close>.\<close>

theorem unterminated_block_IndexError:
  assumes I: "i < length lines" and A: "slice 0 3 (lines ! i) = ''APT''"
    and E: "\<forall>l\<in>set (drop (Suc i) lines). \<not> boundary l"
    and C: "\<forall>l\<in>set (take (Suc i) lines). slice 0 3 l = ''APT'' \<longrightarrow>
              (\<exists>a. apt_fields py_float l = Inr a)"
  shows "parseAirports py_float lines = Inl IndexError"
proof -
  have F: "\<exists>a. apt_fields py_float (lines ! j) = Inr a" if "j \<le> i" "is_apt (lines ! j)" for j
  proof -
    from that I have "lines ! j \<in> set (take (Suc i) lines)"
      by (auto simp: in_set_conv_nth intro!: exI [of _ j])
    with C that show ?thesis by (auto simp: is_apt_def)
  qed
  have before: "\<exists>a. parse_apt py_float lines j = Inr a"
    if "j \<in> set [0..<i]" "is_apt (lines ! j)" for j
  proof -
    from that have J: "j < i" by simp
    from F [of j] J that obtain a where a: "apt_fields py_float (lines ! j) = Inr a" by auto
    have "lines ! i \<in> set (drop (Suc j) lines)"
      using J I by (auto simp: in_set_conv_nth intro!: exI [of _ "i - Suc j"])
    moreover have "boundary (lines ! i)" using A by (simp add: boundary_def)
    ultimately have "\<exists>l\<in>set (drop (Suc j) lines). boundary l" by blast
    with a show ?thesis by (simp add: parse_apt_def rwy_scan_eq)
  qed
  from parse_loop_ok [of "[0..<i]" lines py_float "[]", OF before]
  obtain acc where 1: "parse_loop py_float lines [0..<i] [] = Inr acc" by blast
  from F [of i] A obtain a where "apt_fields py_float (lines ! i) = Inr a"
    by (auto simp: is_apt_def)
  with E have 2: "parse_apt py_float lines i = Inl IndexError"
    by (simp add: parse_apt_def rwy_scan_eq)
  have "[0..<length lines] = [0..<i] @ [i..<length lines]"
    using I upt_add_eq_append [of 0 i "length lines - i"] by simp
  also have "[i..<length lines] = i # [Suc i..<length lines]"
    using I by (simp add: upt_conv_Cons)
  finally have "[0..<length lines] = [0..<i] @ i # [Suc i..<length lines]" .
  then show ?thesis
    using 1 2 A by (simp add: parseAirports_def parse_loop_append)
qed

theorem unterminated_block_IndexError_witness:
  "(1::nat) < length cut_lines
   \<and> slice 0 3 (cut_lines ! 1) = ''APT''
   \<and> list_all (\<lambda>l. \<not> boundary l) (drop (Suc 1) cut_lines)
   \<and> (\<exists>a. apt_fields float_decimal (cut_lines ! 1) = Inr a)
   \<and> parseAirports float_decimal cut_lines = Inl IndexError"
proof -
  have 1: "(1::nat) < length cut_lines" by (simp add: cut_lines_def)
  have 2: "slice 0 3 (cut_lines ! 1) = ''APT''" by (simp add: cut_lines_def line_tags)
  have 3: "\<forall>l\<in>set (drop (Suc 1) cut_lines). \<not> boundary l"
    by (simp add: cut_lines_def line_tags)
  have 4: "\<forall>l\<in>set (take (Suc 1) cut_lines). slice 0 3 l = ''APT'' \<longrightarrow>
              (\<exists>a. apt_fields float_decimal l = Inr a)"
    by (simp add: cut_lines_def line_tags apt_fields_phnl)
  have 5: "\<exists>a. apt_fields float_decimal (cut_lines ! 1) = Inr a"
    by (simp add: cut_lines_def apt_fields_phnl)
  from unterminated_block_IndexError [OF 1 2 3 4] 1 2 3 5 show ?thesis
    by (simp add: list_all_iff)
qed

subsection \<open>Identifiers\<close>

lemma parse_apt_ident:
  "parse_apt py_float lines i = Inr apt \<Longrightarrow>
   icao_ident apt = k_prefix (rstrip (slice 27 31 (lines ! i)))"
  by (auto simp: parse_apt_def apt_fields_def split: sum.splits)

lemma parse_loop_idents:
  "parse_loop py_float lines js acc = Inr res \<Longrightarrow>
   map icao_ident res =
     map icao_ident acc
     @ map (\<lambda>j. k_prefix (rstrip (slice 27 31 (lines ! j)))) (filter (\<lambda>j. is_apt (lines ! j)) js)"
proof (induction js arbitrary: acc)
  case Nil
  then show ?case by simp
next
  case (Cons j js)
  show ?case
  proof (cases "is_apt (lines ! j)")
    case True
    with Cons.prems obtain apt where A: "parse_apt py_float lines j = Inr apt"
      and R: "parse_loop py_float lines js (acc @ [apt]) = Inr res"
      by (auto simp: is_apt_def split: sum.splits)
    from Cons.IH [OF R] parse_apt_ident [OF A] True show ?thesis by simp
  next
    case False
    with Cons.prems have "parse_loop py_float lines js acc = Inr res"
      by (simp add: is_apt_def)
    from Cons.IH [OF this] False show ?thesis by simp
  qed
qed

lemma filter_upt_nth:
  "map (\<lambda>j. f (xs ! j)) (filter (\<lambda>j. P (xs ! j)) [0..<length xs]) = map f (filter P xs)"
proof -
  have "map f (filter P xs) = map f (filter P (map ((!) xs) [0..<length xs]))"
    by (simp add: map_nth)
  also have "\<dots> = map (\<lambda>j. f (xs ! j)) (filter (\<lambda>j. P (xs ! j)) [0..<length xs])"
    by (simp add: filter_map comp_def)
  finally show ?thesis by simp
qed

lemma dropWhile_same_length:
  assumes "length (dropWhile P xs) = length xs"
  shows "dropWhile P xs = xs"
proof -
  have "length (takeWhile P xs) + length (dropWhile P xs) = length xs"
    by (simp only: length_append [symmetric] takeWhile_dropWhile_id)
  with assms have "takeWhile P xs = []" by simp
  with takeWhile_dropWhile_id [of P xs] show ?thesis by simp
qed

lemma rstrip_length_le: "length (rstrip s) \<le> length s"
  using length_dropWhile_le [of py_isspace "rev s"] by (simp add: rstrip_def)

lemma rstrip_same_length: "length (rstrip s) = length s \<Longrightarrow> rstrip s = s"
  using dropWhile_same_length [of py_isspace "rev s"] by (simp add: rstrip_def)

text \<open>C8.  The identifiers of the parsed airports are, in file order, those of the
  lines of type APT: the field of columns 27 to 31 without trailing white space, with
  K in front when that text has exactly 3 characters; and a field whose trimmed text
  has 4 characters is kept as it is.  The raw field "VPS " gives KVPS, and PHNL stays
  PHNL.\<close>

theorem identifier_normalized:
  assumes "parseAirports py_float lines = Inr apts"
  shows "map icao_ident apts =
           map (\<lambda>l. if length (rstrip (slice 27 31 l)) = 3
                     then CHR ''K'' # rstrip (slice 27 31 l)
                     else rstrip (slice 27 31 l))
             (filter (\<lambda>l. slice 0 3 l = ''APT'') lines)
         \<and> (\<forall>l \<in> set lines. length (rstrip (slice 27 31 l)) = 4 \<longrightarrow>
               rstrip (slice 27 31 l) = slice 27 31 l)"
proof -
  from parse_loop_idents [OF assms [unfolded parseAirports_def]]
  have "map icao_ident apts =
          map (\<lambda>l. k_prefix (rstrip (slice 27 31 l))) (filter is_apt lines)"
    by (simp add: filter_upt_nth [of "\<lambda>l. k_prefix (rstrip (slice 27 31 l))" lines is_apt])
  moreover have "rstrip (slice 27 31 l) = slice 27 31 l"
    if "length (rstrip (slice 27 31 l)) = 4" for l
  proof -
    have "length (slice 27 31 l) \<le> 4" by (simp add: slice_def)
    with that rstrip_length_le [of "slice 27 31 l"]
    have "length (rstrip (slice 27 31 l)) = length (slice 27 31 l)" by simp
    then show ?thesis by (rule rstrip_same_length)
  qed
  ultimately show ?thesis
    by (simp add: k_prefix_def is_apt_def [abs_def])
qed

theorem identifier_normalized_witness:
  "slice 27 31 (vps_lines ! 0) = ''VPS ''
   \<and> slice 27 31 (vps_lines ! 7) = ''PHNL''
   \<and> (\<exists>apts. parseAirports float_decimal vps_lines = Inr apts
         \<and> map icao_ident apts = [''KVPS'', ''PHNL''])"
proof -
  have "slice 27 31 (vps_lines ! 0) = ''VPS ''" "slice 27 31 (vps_lines ! 7) = ''PHNL''"
    by (simp_all add: vps_lines_def apt_line_def pad_def slice_def)
  moreover from identifier_normalized [OF parseAirports_vps]
  have "map icao_ident
          [parsed_apt ''KVPS'' (30 + 28 / 60 + 59581 / 3600000, - (86 + 31 / 60 + 31425 / 3600000))
            [parsed_rwy ''01/19'' ''10012'' ''ASPH-CONC'' ''G'',
             parsed_rwy ''12/30'' ''12005'' ''CONC'' ''G'',
             parsed_rwy ''H1'' ''60'' ''TURF'' []],
          parsed_apt ''PHNL'' (21 + 19 / 60 + 42 / 36000, - (157 + 55 / 60 + 129 / 36000))
            [parsed_rwy ''08W/26W'' ''5000'' ''WATER'' []]] = [''KVPS'', ''PHNL'']"
    by (simp add: parsed_apt_def)
  ultimately show ?thesis
    using parseAirports_vps by simp
qed

lemma k_prefix_examples:
  "k_prefix (rstrip ''VPS '') = ''KVPS''" "k_prefix (rstrip ''PHNL'') = ''PHNL''"
  by (simp_all add: k_prefix_def rstrip_def py_isspace_def)

subsection \<open>Surface and condition\<close>

text \<open>C9.  The token of columns 32 to 44, without trailing white space, is split at
  its last hyphen: the text before it is the surface and the text after it the
  condition; a token with no hyphen is the surface, and the condition is empty.
  CONC-G gives CONC and G; TURF gives TURF and the empty string.\<close>

theorem surface_cond_split:
  "(rstrip (slice 32 44 line) = pre @ CHR ''-'' # post \<and> CHR ''-'' \<notin> set post \<longrightarrow>
      surface (decode_rwy line) = pre \<and> cond (decode_rwy line) = post)
   \<and> (CHR ''-'' \<notin> set (rstrip (slice 32 44 line)) \<longrightarrow>
      surface (decode_rwy line) = rstrip (slice 32 44 line) \<and> cond (decode_rwy line) = [])"
  by (auto simp: decode_rwy_def rsplit1_last)

theorem surface_cond_split_witness:
  "rstrip (slice 32 44 (rwy_line ''12/30'' ''12005'' ''CONC-G'')) = ''CONC'' @ CHR ''-'' # ''G''
   \<and> CHR ''-'' \<notin> set ''G''
   \<and> surface (decode_rwy (rwy_line ''12/30'' ''12005'' ''CONC-G'')) = ''CONC''
   \<and> cond (decode_rwy (rwy_line ''12/30'' ''12005'' ''CONC-G'')) = ''G''
   \<and> CHR ''-'' \<notin> set (rstrip (slice 32 44 (rwy_line ''H1'' ''   60'' ''TURF'')))
   \<and> surface (decode_rwy (rwy_line ''H1'' ''   60'' ''TURF'')) = ''TURF''
   \<and> cond (decode_rwy (rwy_line ''H1'' ''   60'' ''TURF'')) = []"
proof -
  have 1: "rstrip (slice 32 44 (rwy_line ''12/30'' ''12005'' ''CONC-G'')) = ''CONC'' @ CHR ''-'' # ''G''"
    by (simp add: rwy_line_def pad_def slice_def rstrip_def dropWhile_replicate_append py_isspace_def)
  have 2: "rstrip (slice 32 44 (rwy_line ''H1'' ''   60'' ''TURF'')) = ''TURF''"
    by (simp add: rwy_line_def pad_def slice_def rstrip_def dropWhile_replicate_append py_isspace_def)
  have 3: "CHR ''-'' \<notin> set ''G''" "CHR ''-'' \<notin> set ''TURF''" by simp_all
  from surface_cond_split [of "rwy_line ''12/30'' ''12005'' ''CONC-G''" "''CONC''" "''G''"]
       surface_cond_split [of "rwy_line ''H1'' ''   60'' ''TURF''" "[]" "[]"] 1 2 3
  show ?thesis by simp
qed

end
